theory Spec2Isabelle
  imports Complex_Main "HOL-Library.Sublist" "HOL-Library.Log_Nat"
begin

section \<open>The cs.money page parser (price\_monitoring/parsers/csmoney/parser/parser.py)\<close>

text \<open>
  The module fetches a page, finds the JSON blob embedded in its
  \<^verbatim>\<open>__NEXT_DATA__\<close> script element, walks to the list of raw item records, turns every
  record into one or more \<^verbatim>\<open>CsmoneyItem\<close>s and hands one pack of items to a queue writer,
  retrying on soft failures up to a bound.

  Conventions of the embedding.
  \<^item> Python values that come out of \<^verbatim>\<open>json.loads\<close> are values of the datatype \<open>json\<close>;
    a dict is an association list read with \<open>map_of\<close> (keys of a decoded object are distinct).
  \<^item> Every exception is a value of \<open>error\<close>; a function that may raise returns
    \<open>error + 'a\<close> with \<open>Inl\<close> for the exception.
  \<^item> A leading underscore of a Python name is dropped (\<^verbatim>\<open>_create_items\<close> is \<open>create_items\<close>).
  \<^item> A Python float is an IEEE binary64 number, given by its exact value, a rational:
    \<open>JFloat q\<close> is the float of value \<open>q\<close>. An operation on floats rounds its exact result
    to the nearest binary64 (\<open>to_double\<close>). Infinities and NaN, which \<^verbatim>\<open>json.loads\<close>
    accepts beyond the JSON grammar, are left out.
  \<^item> A Python \<^verbatim>\<open>str\<close> is a \<open>string\<close>; \<^verbatim>\<open>str.lower\<close> changes the letters A..Z only.
\<close>

subsection \<open>Python values and exceptions\<close>

datatype json =
    JNull
  | JBool bool
  | JInt int
  | JFloat rat
  | JStr string
  | JList "json list"
  | JObj "(string \<times> json) list"

datatype error =
    KeyError string
  | TypeError
  | AttributeError
  | ValueError
  | OverflowError
  | OSError
  | SinkError
  | MaxAttemptsReachedError

text \<open>
  \<open>ValueError\<close> stands for the class and its subclasses (\<^verbatim>\<open>json.JSONDecodeError\<close> is
  one). \<open>SinkError\<close> stands for an exception of the queue writer's \<^verbatim>\<open>put\<close>.
\<close>

text \<open>Sequencing of calls that may raise: the first exception ends the computation.\<close>

fun and_then :: "error + 'a \<Rightarrow> ('a \<Rightarrow> error + 'b) \<Rightarrow> error + 'b" where
  "and_then (Inl e) f = Inl e"
| "and_then (Inr v) f = f v"

text \<open>Truth value of a Python object, as \<^verbatim>\<open>if x:\<close> tests it.\<close>

fun truthy :: "json \<Rightarrow> bool" where
  "truthy JNull = False"
| "truthy (JBool b) = b"
| "truthy (JInt n) = (n \<noteq> 0)"
| "truthy (JFloat x) = (x \<noteq> 0)"
| "truthy (JStr s) = (s \<noteq> [])"
| "truthy (JList xs) = (xs \<noteq> [])"
| "truthy (JObj kvs) = (kvs \<noteq> [])"

text \<open>\<^verbatim>\<open>key in obj\<close> for a string key.\<close>

fun py_in :: "string \<Rightarrow> json \<Rightarrow> error + bool" where
  "py_in k (JObj kvs) = Inr (map_of kvs k \<noteq> None)"
| "py_in k (JList xs) = Inr (JStr k \<in> set xs)"
| "py_in k (JStr s) = Inr (sublist k s)"
| "py_in k _ = Inl TypeError"

text \<open>\<^verbatim>\<open>obj[key]\<close> for a string key.\<close>

fun py_getitem :: "json \<Rightarrow> string \<Rightarrow> error + json" where
  "py_getitem (JObj kvs) k = (case map_of kvs k of None \<Rightarrow> Inl (KeyError k) | Some v \<Rightarrow> Inr v)"
| "py_getitem _ k = Inl TypeError"

text \<open>\<^verbatim>\<open>obj.get(key, None)\<close>: only a dict has the method.\<close>

fun py_get :: "json \<Rightarrow> string \<Rightarrow> error + json" where
  "py_get (JObj kvs) k = (case map_of kvs k of None \<Rightarrow> Inr JNull | Some v \<Rightarrow> Inr v)"
| "py_get _ k = Inl AttributeError"

text \<open>The elements a \<^verbatim>\<open>for\<close> loop visits.\<close>

fun py_iter :: "json \<Rightarrow> error + json list" where
  "py_iter (JList xs) = Inr xs"
| "py_iter (JObj kvs) = Inr (map (\<lambda>kv. JStr (fst kv)) kvs)"
| "py_iter (JStr s) = Inr (map (\<lambda>c. JStr [c]) s)"
| "py_iter _ = Inl TypeError"

subsection \<open>Floats\<close>

text \<open>
  Python's \<^verbatim>\<open>round\<close> on a float and C's rounding mode \<^verbatim>\<open>_PyTime_ROUND_HALF_EVEN\<close>: the
  nearest integer, the even one of two that are equally near.
\<close>

definition round_half_even :: "rat \<Rightarrow> int" where
  "round_half_even x =
     (let f = \<lfloor>x\<rfloor>; r = x - of_int f
      in if r < 1 / 2 then f else if 1 / 2 < r then f + 1 else if even f then f else f + 1)"

text \<open>
  The binary exponent of a positive rational: \<open>floor_log2 x\<close> is the integer \<open>e\<close> with
  \<open>2 ^ e \<le> x < 2 ^ (e + 1)\<close> (lemma \<open>floor_log2_bounds\<close>), computed from the bit lengths
  of numerator and denominator.
\<close>

definition floor_log2 :: "rat \<Rightarrow> int" where
  "floor_log2 x =
     (let (a, b) = quotient_of x; e = bitlen a - bitlen b
      in if power_int 2 e \<le> x then e else e - 1)"

text \<open>
  The gap between neighbouring binary64 numbers at \<open>x\<close>: 52 fraction bits below the
  leading bit, and the fixed gap \<open>2 ^ -1074\<close> of the subnormal numbers below \<open>2 ^ -1022\<close>.
\<close>

definition ulp :: "rat \<Rightarrow> rat" where
  "ulp x = power_int 2 (max (floor_log2 \<bar>x\<bar>) (- 1022) - 52)"

text \<open>The binary64 number nearest to \<open>x\<close>, ties to the even fraction (the IEEE default).\<close>

definition to_double :: "rat \<Rightarrow> rat" where
  "to_double x = (if x = 0 then 0 else of_int (round_half_even (x / ulp x)) * ulp x)"

text \<open>
  \<^verbatim>\<open>unix / 1000\<close>. On two \<^verbatim>\<open>int\<close>s Python's true division gives the float nearest to the
  exact quotient and raises \<^verbatim>\<open>OverflowError\<close> when that is beyond the largest float; a
  float divided by 1000 cannot overflow.
\<close>

definition true_divide_1000 :: "rat \<Rightarrow> error + rat" where
  "true_divide_1000 x =
     (let d = to_double (x / 1000) in if 2 ^ 1024 \<le> \<bar>d\<bar> then Inl OverflowError else Inr d)"

text \<open>\<^verbatim>\<open>modf\<close>: the integral part of a float, towards zero.\<close>

definition trunc :: "rat \<Rightarrow> int" where
  "trunc x = (if 0 \<le> x then \<lfloor>x\<rfloor> else \<lceil>x\<rceil>)"

subsection \<open>Timestamps\<close>

text \<open>An aware \<^verbatim>\<open>datetime\<close> in UTC, given by its seconds since the epoch.\<close>

datatype datetime = UTC_seconds rat

text \<open>
  \<^verbatim>\<open>datetime.fromtimestamp(d, UTC)\<close> on a float, as CPython 3.11 computes it on Linux with
  a 64-bit \<^verbatim>\<open>time_t\<close> (\<^verbatim>\<open>from datetime import UTC\<close> needs 3.11):
  \<^verbatim>\<open>
  floatpart = modf(d, &intpart);
  floatpart *= 1e6;
  floatpart = _PyTime_Round(floatpart, _PyTime_ROUND_HALF_EVEN);
  if (floatpart >= 1e6) { floatpart -= 1e6; intpart += 1.0; }
  else if (floatpart < 0) { floatpart += 1e6; intpart -= 1.0; }
  \<close>
  The seconds must fit \<^verbatim>\<open>time_t\<close> (else \<^verbatim>\<open>OverflowError\<close>), \<^verbatim>\<open>gmtime\<close> must give a year
  that fits a C \<^verbatim>\<open>int\<close> (else \<^verbatim>\<open>OSError\<close>), and the year must lie in 1 to 9999 (else
  \<^verbatim>\<open>ValueError\<close>). The result has microsecond resolution.
\<close>

definition fromtimestamp_UTC :: "rat \<Rightarrow> error + datetime" where
  "fromtimestamp_UTC d =
     (let intpart = trunc d;
          floatpart = round_half_even (to_double ((d - of_int intpart) * 1000000));
          (sec, us) =
            (if 1000000 \<le> floatpart then (intpart + 1, floatpart - 1000000)
             else if floatpart < 0 then (intpart - 1, floatpart + 1000000)
             else (intpart, floatpart))
      in if sec < - (2 ^ 63) \<or> 2 ^ 63 \<le> sec then Inl OverflowError
         else if sec < - 67768040609740800 \<or> 67768036191676799 < sec then Inl OSError
         else if sec < - 62135596800 \<or> 253402300799 < sec then Inl ValueError
         else Inr (UTC_seconds (of_int sec + of_int us / 1000000)))"

text \<open>
  \<^verbatim>\<open>
  def _csmoney_unix_to_datetime(unix: int | None) -> datetime | None:
      if unix:
          return datetime.fromtimestamp(unix / 1000, UTC)
      return None
  \<close>
  The division is defined on numbers (and on \<^verbatim>\<open>bool\<close>, a subclass of \<^verbatim>\<open>int\<close>) only.
\<close>

fun csmoney_unix_to_datetime :: "json \<Rightarrow> error + datetime option" where
  "csmoney_unix_to_datetime (JInt n) =
     (if n \<noteq> 0
      then and_then (true_divide_1000 (of_int n)) (\<lambda>t. map_sum id Some (fromtimestamp_UTC t))
      else Inr None)"
| "csmoney_unix_to_datetime (JFloat x) =
     (if x \<noteq> 0
      then and_then (true_divide_1000 x) (\<lambda>t. map_sum id Some (fromtimestamp_UTC t))
      else Inr None)"
| "csmoney_unix_to_datetime (JBool b) =
     (if b
      then and_then (true_divide_1000 1) (\<lambda>t. map_sum id Some (fromtimestamp_UTC t))
      else Inr None)"
| "csmoney_unix_to_datetime j = (if truthy j then Inl TypeError else Inr None)"

subsection \<open>Domain items and the collaborators outside the module\<close>

text \<open>
  Modelled from the spec: \<^verbatim>\<open>CsmoneyItem\<close> and \<^verbatim>\<open>CsmoneyItemPack\<close> live in
  \<^verbatim>\<open>price_monitoring.models.csmoney\<close>, which the sources at hand do not hold. The fields
  are the keyword arguments of the constructor calls in \<^verbatim>\<open>_create_items\<close>, equality is
  structural, and values taken from the raw record unchanged (price, template identifier,
  wear value, overpay metric) stay \<open>json\<close> values, \<open>JNull\<close> being \<^verbatim>\<open>None\<close>.
\<close>

record 'cat CsmoneyItem =
  name :: string
  price :: json
  asset_id :: string
  name_id :: json
  type' :: 'cat
  float' :: json
  unlock_timestamp :: "datetime option"
  overpay_float :: json

record 'cat CsmoneyItemPack =
  items :: "'cat CsmoneyItem list"

text \<open>
  What the module calls and does not define is a parameter of the model:
  \<^item> \<open>patch_market_name\<close>: the name normaliser of \<^verbatim>\<open>_name_patcher\<close>, which may raise;
  \<^item> \<open>CsmoneyItemCategory\<close>: the lookup of an enumeration member by value, \<open>None\<close> when
    the value is no member (the call then raises \<^verbatim>\<open>ValueError\<close>);
  \<^item> \<open>json_loads\<close>: \<^verbatim>\<open>json.loads\<close>, \<open>None\<close> when it raises \<^verbatim>\<open>JSONDecodeError\<close>;
  \<^item> \<open>py_str\<close>: the builtin \<^verbatim>\<open>str\<close> on decoded values;
  \<^item> \<open>put_ok\<close>: whether the writer's \<^verbatim>\<open>put\<close> returns for a pack (otherwise it raises).
\<close>

record 'cat collaborators =
  patch_market_name :: "json \<Rightarrow> error + string"
  CsmoneyItemCategory :: "json \<Rightarrow> 'cat option"
  json_loads :: "string \<Rightarrow> json option"
  py_str :: "json \<Rightarrow> string"
  put_ok :: "'cat CsmoneyItemPack \<Rightarrow> bool"

text \<open>\<^verbatim>\<open>CsmoneyItemCategory(code)\<close> as a call.\<close>

definition category_of :: "'cat collaborators \<Rightarrow> json \<Rightarrow> error + 'cat" where
  "category_of env code =
     (case CsmoneyItemCategory env code of None \<Rightarrow> Inl ValueError | Some c \<Rightarrow> Inr c)"

subsection \<open>The challenge classifier\<close>

definition lower_char :: "char \<Rightarrow> char" where
  "lower_char c =
     (let n = (of_char c :: nat) in if 65 \<le> n \<and> n \<le> 90 then char_of (n + 32) else c)"

definition lower :: "string \<Rightarrow> string" where
  "lower s = map lower_char s"

definition CLOUDFLARE_KEYWORDS :: "string list" where
  "CLOUDFLARE_KEYWORDS =
     [''just a moment'', ''cf-mitigated'', ''cf-browser-verification'', ''cf-chl'']"

text \<open>
  \<^verbatim>\<open>
  def _is_cloudflare_challenge(html: str) -> bool:
      lowered = html.lower()
      return any(keyword in lowered for keyword in _CLOUDFLARE_KEYWORDS)
  \<close>
\<close>

definition is_cloudflare_challenge :: "string \<Rightarrow> bool" where
  "is_cloudflare_challenge html =
     (let lowered = lower html
      in list_ex (\<lambda>keyword. sublist keyword lowered) CLOUDFLARE_KEYWORDS)"

subsection \<open>The snapshot extractor\<close>

text \<open>
  \<open>split_first needle s\<close> cuts \<open>s\<close> at the leftmost occurrence of \<open>needle\<close>: the text
  before it and the text after it.
\<close>

fun split_first :: "string \<Rightarrow> string \<Rightarrow> (string \<times> string) option" where
  "split_first needle [] = (if needle = [] then Some ([], []) else None)"
| "split_first needle (c # cs) =
     (if prefix needle (c # cs) then Some ([], drop (length needle) (c # cs))
      else map_option (\<lambda>(before, after). (c # before, after)) (split_first needle cs))"

text \<open>
  The search of
  \<^verbatim>\<open><script id="__NEXT_DATA__" type="application/json"[^>]*>(?P<data>.*?)</script>\<close>
  with \<^verbatim>\<open>re.DOTALL\<close>, returning the group \<^verbatim>\<open>data\<close>. The match starts at the leftmost
  occurrence of the opening text; \<^verbatim>\<open>[^>]*>\<close> runs to the first \<^verbatim>\<open>>\<close> after it; the
  lazy group ends at the first \<^verbatim>\<open></script>\<close> after that. When the leftmost start has no
  match, no later start has one, since what follows a later start is a part of what
  follows the leftmost.
\<close>

definition NEXT_DATA_OPEN :: string where
  \<open>NEXT_DATA_OPEN = ''<script id="__NEXT_DATA__" type="application/json"''\<close>

definition NEXT_DATA_PATTERN_search :: "string \<Rightarrow> string option" where
  "NEXT_DATA_PATTERN_search html =
     (case split_first NEXT_DATA_OPEN html of
        None \<Rightarrow> None
      | Some (_, after_open) \<Rightarrow>
          (case split_first ''>'' after_open of
             None \<Rightarrow> None
           | Some (_, after_tag) \<Rightarrow>
               (case split_first ''</script>'' after_tag of
                  None \<Rightarrow> None
                | Some (data, _) \<Rightarrow> Some data)))"

text \<open>
  What a caller may pass to the extractor: the text of a page, or a structure that is
  decoded already (as tests/parsers/csmoney/test\_parser\_impl.py does).
\<close>

datatype source = Html string | Decoded json

text \<open>
  \<^verbatim>\<open>
  def _extract_next_data(html: str) -> dict:
      match = _NEXT_DATA_PATTERN.search(html)
      if not match:
          raise ValueError("__NEXT_DATA__ script not found in cs.money response")
      return json.loads(match.group("data"))
  \<close>
  \<^verbatim>\<open>Pattern.search\<close> raises \<^verbatim>\<open>TypeError\<close> on an argument that is no string.
\<close>

fun extract_next_data :: "'cat collaborators \<Rightarrow> source \<Rightarrow> error + json" where
  "extract_next_data env (Decoded d) = Inl TypeError"
| "extract_next_data env (Html html) =
     (case NEXT_DATA_PATTERN_search html of
        None \<Rightarrow> Inl ValueError
      | Some data \<Rightarrow>
          (case json_loads env data of None \<Rightarrow> Inl ValueError | Some d \<Rightarrow> Inr d))"

text \<open>The \<^verbatim>\<open>except KeyError\<close> clause of \<^verbatim>\<open>_extract_skins\<close>: other exceptions pass.\<close>

fun key_error_to_value_error :: "error + 'a \<Rightarrow> error + 'a" where
  "key_error_to_value_error (Inl (KeyError k)) = Inl ValueError"
| "key_error_to_value_error r = r"

text \<open>
  \<^verbatim>\<open>
  def _extract_skins(data: dict) -> list[dict]:
      try:
          props = data["props"]
          page_props = props["pageProps"]
          bot_init = page_props["botInitData"]
          skins_info = bot_init["skinsInfo"]
      except KeyError as exc:
          raise ValueError("Unexpected structure of cs.money page") from exc
      skins = skins_info.get("skins")
      if not isinstance(skins, list):
          return []
      return skins
  \<close>
\<close>

definition extract_skins :: "json \<Rightarrow> error + json list" where
  "extract_skins data =
     and_then
       (key_error_to_value_error
          (and_then (py_getitem data ''props'') (\<lambda>props.
           and_then (py_getitem props ''pageProps'') (\<lambda>page_props.
           and_then (py_getitem page_props ''botInitData'') (\<lambda>bot_init.
           py_getitem bot_init ''skinsInfo'')))))
       (\<lambda>skins_info.
          and_then (py_get skins_info ''skins'') (\<lambda>skins.
            case skins of JList xs \<Rightarrow> Inr xs | _ \<Rightarrow> Inr []))"

subsection \<open>The item transformer\<close>

text \<open>
  The first constructor call of \<^verbatim>\<open>_create_items\<close> (lines 89 to 98); Python evaluates the
  keyword arguments from left to right.
  \<^verbatim>\<open>
  CsmoneyItem(
      name=name,
      price=json_item["price"],
      asset_id=str(json_item["assetId"]),
      name_id=json_item["nameId"],
      type_=CsmoneyItemCategory(json_item["type"]),
      float_=json_item.get("float", None),
      unlock_timestamp=_csmoney_unix_to_datetime(json_item.get("tradeLock", None)),
      overpay_float=overpay_float,
  )
  \<close>
\<close>

definition parent_item_of ::
  "'cat collaborators \<Rightarrow> json \<Rightarrow> string \<Rightarrow> json \<Rightarrow> error + 'cat CsmoneyItem" where
  "parent_item_of env json_item nm overpay_fl =
     and_then (py_getitem json_item ''price'') (\<lambda>pr.
     and_then (py_getitem json_item ''assetId'') (\<lambda>aid.
     and_then (py_getitem json_item ''nameId'') (\<lambda>nid.
     and_then (py_getitem json_item ''type'') (\<lambda>code.
     and_then (category_of env code) (\<lambda>cat.
     and_then (py_get json_item ''float'') (\<lambda>fl.
     and_then (py_get json_item ''tradeLock'') (\<lambda>lock.
     and_then (csmoney_unix_to_datetime lock) (\<lambda>ts.
     Inr \<lparr>name = nm, price = pr, asset_id = py_str env aid, name_id = nid, type' = cat,
          float' = fl, unlock_timestamp = ts, overpay_float = overpay_fl\<rparr>))))))))"

text \<open>
  The constructor call in the loop over \<^verbatim>\<open>stackItems\<close> (lines 104 to 113).
  \<^verbatim>\<open>
  CsmoneyItem(
      name=name,
      price=json_item["price"],
      asset_id=str(stack_item["id"]),
      name_id=json_item["nameId"],
      type_=CsmoneyItemCategory(json_item["type"]),
      float_=stack_item.get("float", None),
      unlock_timestamp=_csmoney_unix_to_datetime(stack_item["tradeLock"]),
      overpay_float=None,
  )
  \<close>
\<close>

definition stack_item_of ::
  "'cat collaborators \<Rightarrow> json \<Rightarrow> string \<Rightarrow> json \<Rightarrow> error + 'cat CsmoneyItem" where
  "stack_item_of env json_item nm stack_item =
     and_then (py_getitem json_item ''price'') (\<lambda>pr.
     and_then (py_getitem stack_item ''id'') (\<lambda>sid.
     and_then (py_getitem json_item ''nameId'') (\<lambda>nid.
     and_then (py_getitem json_item ''type'') (\<lambda>code.
     and_then (category_of env code) (\<lambda>cat.
     and_then (py_get stack_item ''float'') (\<lambda>fl.
     and_then (py_getitem stack_item ''tradeLock'') (\<lambda>lock.
     and_then (csmoney_unix_to_datetime lock) (\<lambda>ts.
     Inr \<lparr>name = nm, price = pr, asset_id = py_str env sid, name_id = nid, type' = cat,
          float' = fl, unlock_timestamp = ts, overpay_float = JNull\<rparr>))))))))"

text \<open>
  \<^verbatim>\<open>is_stack = "stackSize" in json_item and "stackId" in json_item and "stackItems" in json_item\<close>
\<close>

definition is_stack :: "json \<Rightarrow> error + bool" where
  "is_stack json_item =
     and_then (py_in ''stackSize'' json_item) (\<lambda>has_size.
       if \<not> has_size then Inr False
       else and_then (py_in ''stackId'' json_item) (\<lambda>has_id.
         if \<not> has_id then Inr False else py_in ''stackItems'' json_item))"

text \<open>The loop \<^verbatim>\<open>for stack_item in json_item["stackItems"]: items.append(...)\<close>.\<close>

fun append_stack_items ::
  "'cat collaborators \<Rightarrow> json \<Rightarrow> string \<Rightarrow> 'cat CsmoneyItem list \<Rightarrow> json list
     \<Rightarrow> error + 'cat CsmoneyItem list" where
  "append_stack_items env json_item nm acc [] = Inr acc"
| "append_stack_items env json_item nm acc (stack_item # rest) =
     and_then (stack_item_of env json_item nm stack_item) (\<lambda>it.
       append_stack_items env json_item nm (acc @ [it]) rest)"

text \<open>
  \<^verbatim>\<open>
  def _create_items(json_item) -> list[CsmoneyItem]:
      if "fullName" not in json_item:
          return []
      name = patch_market_name(json_item["fullName"])
      overpay = json_item.get("overpay", None)
      overpay_float = overpay.get("float", None) if overpay else None
      items = [CsmoneyItem(...)]
      is_stack = ...
      if is_stack:
          for stack_item in json_item["stackItems"]:
              items.append(CsmoneyItem(...))
      return items
  \<close>
\<close>

definition create_items :: "'cat collaborators \<Rightarrow> json \<Rightarrow> error + 'cat CsmoneyItem list" where
  "create_items env json_item =
     and_then (py_in ''fullName'' json_item) (\<lambda>has_name.
       if \<not> has_name then Inr []
       else
         and_then (py_getitem json_item ''fullName'') (\<lambda>full_name.
         and_then (patch_market_name env full_name) (\<lambda>nm.
         and_then (py_get json_item ''overpay'') (\<lambda>overpay.
         and_then (if truthy overpay then py_get overpay ''float'' else Inr JNull) (\<lambda>overpay_fl.
         and_then (parent_item_of env json_item nm overpay_fl) (\<lambda>parent.
         and_then (is_stack json_item) (\<lambda>stack.
           if stack then
             and_then (py_getitem json_item ''stackItems'') (\<lambda>stack_items.
             and_then (py_iter stack_items) (\<lambda>siblings.
               append_stack_items env json_item nm [parent] siblings))
           else Inr [parent])))))))"

subsection \<open>The fetcher, the batch and the retry loop\<close>

text \<open>
  Modelled from the spec: the decorator \<^verbatim>\<open>catch_aiohttp\<close> is not among the sources; by
  the spec it logs and swallows every transport exception, the call then returning
  \<^verbatim>\<open>None\<close>. A \<open>response\<close> is what one GET gives past that guard: \<open>Failed\<close>, or the body.
  \<^verbatim>\<open>
  text = await response.text()
  if _is_cloudflare_challenge(text):
      return None
  return text
  \<close>
\<close>

datatype response = Failed | Body string

definition request :: "response \<Rightarrow> string option" where
  "request r =
     (case r of
        Failed \<Rightarrow> None
      | Body text \<Rightarrow> if is_cloudflare_challenge text then None else Some text)"

text \<open>The two nested loops of \<^verbatim>\<open>_process_items\<close> that fill the pack.\<close>

fun collect_items ::
  "'cat collaborators \<Rightarrow> 'cat CsmoneyItemPack \<Rightarrow> json list \<Rightarrow> error + 'cat CsmoneyItemPack" where
  "collect_items env pack [] = Inr pack"
| "collect_items env pack (json_item # rest) =
     and_then (create_items env json_item) (\<lambda>its.
       collect_items env (pack\<lparr>items := items pack @ its\<rparr>) rest)"

datatype outcome = Returned | Raised error

text \<open>
  \<^verbatim>\<open>
  async def _process_items(items_data, result_queue) -> None:
      pack = CsmoneyItemPack()
      for json_item in items_data:
          items = _create_items(json_item)
          for item in items:
              pack.items.append(item)
      await result_queue.put(pack)
  \<close>
  The queue is the list of the packs \<^verbatim>\<open>put\<close> was called with, in order.
\<close>

definition process_items ::
  "'cat collaborators \<Rightarrow> json list \<Rightarrow> 'cat CsmoneyItemPack list
     \<Rightarrow> outcome \<times> 'cat CsmoneyItemPack list" where
  "process_items env items_data result_queue =
     (case collect_items env \<lparr>items = []\<rparr> items_data of
        Inl e \<Rightarrow> (Raised e, result_queue)
      | Inr pack \<Rightarrow>
          (if put_ok env pack then Returned else Raised SinkError, result_queue @ [pack]))"

text \<open>
  The state of one call of \<^verbatim>\<open>parse\<close>: the counter of the source, the number of calls
  of \<^verbatim>\<open>_request\<close> so far, and the queue.
\<close>

record 'cat parse_state =
  failed_attempts :: int
  attempts :: nat
  sink :: "'cat CsmoneyItemPack list"

text \<open>
  The \<^verbatim>\<open>while\<close> loop of \<^verbatim>\<open>parse\<close> (lines 146 to 168). \<open>net n\<close> is the response to the
  \<open>n\<close>-th GET. The session limiter returns a session and never raises (its contract),
  so it leaves no trace in the model. \<open>Returned\<close> means that the loop was left, by its
  condition or by \<^verbatim>\<open>break\<close>.
  \<^verbatim>\<open>
  while failed_attempts <= max_attempts:
      session = await self._limiter.get_available(_POSTPONE_DURATION)
      html = await _request(session, url)
      if not html:
          failed_attempts += 1
          continue
      try:
          next_data = _extract_next_data(html)
          skins_data = _extract_skins(next_data)
      except ValueError as exc:
          failed_attempts += 1
          continue
      await _process_items(skins_data, result_queue)
      break
  \<close>
\<close>

function parse_loop ::
  "'cat collaborators \<Rightarrow> (nat \<Rightarrow> response) \<Rightarrow> int \<Rightarrow> 'cat parse_state
     \<Rightarrow> outcome \<times> 'cat parse_state" where
  "parse_loop env net max_attempts st =
     (if failed_attempts st \<le> max_attempts then
        (let st1 = st\<lparr>attempts := Suc (attempts st)\<rparr>;
             failed = st1\<lparr>failed_attempts := failed_attempts st + 1\<rparr>
         in case request (net (attempts st)) of
              None \<Rightarrow> parse_loop env net max_attempts failed
            | Some html \<Rightarrow>
                if html = [] then parse_loop env net max_attempts failed
                else
                  (case and_then (extract_next_data env (Html html)) extract_skins of
                     Inl e \<Rightarrow>
                       if e = ValueError then parse_loop env net max_attempts failed
                       else (Raised e, st1)
                   | Inr skins_data \<Rightarrow>
                       (case process_items env skins_data (sink st1) of
                          (out, queue) \<Rightarrow> (out, st1\<lparr>sink := queue\<rparr>))))
      else (Returned, st))"
  by pat_completeness auto
termination
  by (relation "measure (\<lambda>(env, net, max_attempts, st). nat (max_attempts + 1 - failed_attempts st))")
     auto

declare parse_loop.simps [simp del]

text \<open>
  \<^verbatim>\<open>
  async def parse(self, url, result_queue, max_attempts=_MAX_ATTEMPTS_DEFAULT) -> None:
      failed_attempts = 0
      while ...
      if failed_attempts > max_attempts:
          raise MaxAttemptsReachedError()
  \<close>
\<close>

definition parse ::
  "'cat collaborators \<Rightarrow> (nat \<Rightarrow> response) \<Rightarrow> int \<Rightarrow> outcome \<times> 'cat parse_state" where
  "parse env net max_attempts =
     (case parse_loop env net max_attempts \<lparr>failed_attempts = 0, attempts = 0, sink = []\<rparr> of
        (Raised e, st) \<Rightarrow> (Raised e, st)
      | (Returned, st) \<Rightarrow>
          if failed_attempts st > max_attempts then (Raised MaxAttemptsReachedError, st)
          else (Returned, st))"

text \<open>
  The two ways an iteration of the loop ends in \<^verbatim>\<open>failed_attempts += 1; continue\<close>: the
  fetch gave no content (\<^verbatim>\<open>if not html\<close>), or the extraction raised \<^verbatim>\<open>ValueError\<close>.
\<close>

definition attempt_fails :: "'cat collaborators \<Rightarrow> response \<Rightarrow> bool" where
  "attempt_fails env r =
     (case request r of
        None \<Rightarrow> True
      | Some html \<Rightarrow>
          html = [] \<or> and_then (extract_next_data env (Html html)) extract_skins = Inl ValueError)"

subsection \<open>Sample collaborators and pages\<close>

text \<open>
  Concrete collaborators and pages at which the theorems below are instantiated. The
  pages are those the tests build: the opening tag, a JSON text, the closing tag. The
  sample enumeration has the member values 1 to 20, the sample \<open>str\<close> covers strings
  and integers, and the sample decoder knows the five JSON texts used here; a price such
  as 12.34 is decoded to the nearest float.
\<close>

function decimal :: "int \<Rightarrow> string" where
  "decimal n =
     (if n < 10 then [char_of (48 + n)] else decimal (n div 10) @ [char_of (48 + n mod 10)])"
  by pat_completeness auto
termination
  by (relation "measure nat") auto

declare decimal.simps [simp del]

definition sample_str :: "json \<Rightarrow> string" where
  "sample_str j =
     (case j of
        JStr s \<Rightarrow> s
      | JInt n \<Rightarrow> (if n < 0 then ''-'' @ decimal (- n) else decimal n)
      | _ \<Rightarrow> [])"

definition sample_category :: "json \<Rightarrow> int option" where
  "sample_category j =
     (case j of JInt n \<Rightarrow> if 1 \<le> n \<and> n \<le> 20 then Some n else None | _ \<Rightarrow> None)"

definition sample_patch :: "json \<Rightarrow> error + string" where
  "sample_patch j = (case j of JStr s \<Rightarrow> Inr s | _ \<Rightarrow> Inl TypeError)"

definition page_data :: "json list \<Rightarrow> json" where
  "page_data skins =
     JObj [(''props'', JObj [(''pageProps'', JObj [(''botInitData'',
       JObj [(''skinsInfo'', JObj [(''skins'', JList skins)])])])])]"

definition page_of :: "string \<Rightarrow> string" where
  "page_of text = ''<html>'' @ NEXT_DATA_OPEN @ ''>'' @ text @ ''</script></html>''"

definition redline :: json where
  "redline =
     JObj [(''fullName'', JStr ''AK-47 | Redline (Field-Tested)''), (''price'', JFloat (to_double (617 / 50))),
           (''assetId'', JInt 123), (''nameId'', JInt 456), (''type'', JInt 3)]"

definition redline_text :: string where
  \<open>redline_text = ''{"props": {"pageProps": {"botInitData": {"skinsInfo": {"skins": [{"fullName": "AK-47 | Redline (Field-Tested)", "price": 12.34, "assetId": 123, "nameId": 456, "type": 3}]}}}}}''\<close>

definition unknown_type :: json where
  "unknown_type =
     JObj [(''fullName'', JStr ''AK-47 | Redline (Field-Tested)''), (''price'', JFloat (to_double (617 / 50))),
           (''assetId'', JInt 123), (''nameId'', JInt 456), (''type'', JInt 999)]"

definition unknown_type_text :: string where
  \<open>unknown_type_text = ''{"props": {"pageProps": {"botInitData": {"skinsInfo": {"skins": [{"fullName": "AK-47 | Redline (Field-Tested)", "price": 12.34, "assetId": 123, "nameId": 456, "type": 999}]}}}}}''\<close>

definition gloves_no_lock :: json where
  "gloves_no_lock =
     JObj [(''fullName'', JStr ''Sport Gloves | Vice (Factory New)''), (''price'', JFloat (to_double (357187 / 10))),
           (''assetId'', JInt 24491496626), (''nameId'', JInt 29570), (''type'', JInt 13),
           (''stackSize'', JInt 2), (''stackId'', JStr ''s1''),
           (''stackItems'', JList [JObj [(''id'', JInt 24571330159)]])]"

definition gloves_no_lock_text :: string where
  \<open>gloves_no_lock_text = ''{"props": {"pageProps": {"botInitData": {"skinsInfo": {"skins": [{"fullName": "Sport Gloves | Vice (Factory New)", "price": 35718.7, "assetId": 24491496626, "nameId": 29570, "type": 13, "stackSize": 2, "stackId": "s1", "stackItems": [{"id": 24571330159}]}]}}}}}''\<close>

definition no_page_props_text :: string where
  \<open>no_page_props_text = ''{"props": {}}''\<close>

definition null_props_text :: string where
  \<open>null_props_text = ''{"props": null}''\<close>

definition sample_loads :: "string \<Rightarrow> json option" where
  "sample_loads =
     map_of [(redline_text, page_data [redline]),
             (unknown_type_text, page_data [unknown_type]),
             (gloves_no_lock_text, page_data [gloves_no_lock]),
             (no_page_props_text, JObj [(''props'', JObj [])]),
             (null_props_text, JObj [(''props'', JNull)])]"

definition sample_env :: "int collaborators" where
  "sample_env =
     \<lparr>patch_market_name = sample_patch, CsmoneyItemCategory = sample_category,
      json_loads = sample_loads, py_str = sample_str, put_ok = (\<lambda>pack. True)\<rparr>"

text \<open>A network whose first GET fails and whose later GETs all give the same page.\<close>

definition sample_net :: "string \<Rightarrow> nat \<Rightarrow> response" where
  "sample_net page n = (if n = 0 then Failed else Body page)"


text \<open>The item of the record \<open>redline\<close>.\<close>

definition redline_item :: "int CsmoneyItem" where
  "redline_item =
     \<lparr>name = ''AK-47 | Redline (Field-Tested)'', price = JFloat (to_double (617 / 50)), asset_id = ''123'',
      name_id = JInt 456, type' = 3, float' = JNull, unlock_timestamp = None,
      overpay_float = JNull\<rparr>"

text \<open>
  A grouped record with one sibling, both locked until 2022-02-21 08:00 UTC, and the two
  items it gives (the shape of \<^verbatim>\<open>test_create_items_with_stack_and_tradelock\<close>).
\<close>

definition bayonet_siblings :: "json list" where
  "bayonet_siblings =
     [JObj [(''id'', JInt 24902572721), (''float'', JStr ''0.06806051731109601''),
            (''tradeLock'', JInt 1645430400000)]]"

definition bayonet_fields :: "(string \<times> json) list" where
  "bayonet_fields =
     [(''fullName'', JStr ''M9 Bayonet | Doppler (Factory New)''), (''price'', JFloat (to_double (57964 / 5))),
      (''assetId'', JInt 24899230485), (''nameId'', JInt 15840), (''type'', JInt 2),
      (''float'', JStr ''0.056123819202184''), (''tradeLock'', JInt 1645430400000),
      (''stackSize'', JInt 2), (''stackId'', JStr ''s2''),
      (''stackItems'', JList bayonet_siblings)]"

definition bayonet_items :: "int CsmoneyItem list" where
  "bayonet_items =
     [\<lparr>name = ''M9 Bayonet | Doppler (Factory New)'', price = JFloat (to_double (57964 / 5)),
       asset_id = ''24899230485'', name_id = JInt 15840, type' = 2,
       float' = JStr ''0.056123819202184'', unlock_timestamp = Some (UTC_seconds 1645430400),
       overpay_float = JNull\<rparr>,
      \<lparr>name = ''M9 Bayonet | Doppler (Factory New)'', price = JFloat (to_double (57964 / 5)),
       asset_id = ''24902572721'', name_id = JInt 15840, type' = 2,
       float' = JStr ''0.06806051731109601'', unlock_timestamp = Some (UTC_seconds 1645430400),
       overpay_float = JNull\<rparr>]"

section \<open>Properties\<close>

subsection \<open>Sequencing\<close>

lemma and_then_eq_Inr: "and_then x f = Inr y \<longleftrightarrow> (\<exists>v. x = Inr v \<and> f v = Inr y)"
  by (cases x) auto

subsection \<open>The challenge classifier\<close>

lemma sublist_map_iff:
  "sublist k (map f xs) \<longleftrightarrow> (\<exists>s. sublist s xs \<and> map f s = k)"
proof
  assume "sublist k (map f xs)"
  then obtain ps ss where "map f xs = ps @ k @ ss"
    by (auto simp: sublist_def)
  then have "\<exists>us vs. xs = us @ vs \<and> ps = map f us \<and> k @ ss = map f vs"
    by (simp only: map_eq_append_conv)
  then obtain us vs where xs: "xs = us @ vs" and vs: "k @ ss = map f vs"
    by blast
  from vs have "\<exists>s ws. vs = s @ ws \<and> k = map f s \<and> ss = map f ws"
    by (simp only: append_eq_map_conv)
  then obtain s ws where "vs = s @ ws" "map f s = k"
    by blast
  with xs have "sublist s xs \<and> map f s = k"
    by (auto simp: sublist_def)
  then show "\<exists>s. sublist s xs \<and> map f s = k" ..
next
  assume "\<exists>s. sublist s xs \<and> map f s = k"
  then obtain s ps ss where "xs = ps @ s @ ss" "map f s = k"
    by (auto simp: sublist_def)
  then have "map f xs = map f ps @ k @ map f ss"
    by simp
  then show "sublist k (map f xs)"
    unfolding sublist_def by blast
qed

text \<open>
  C9. \<open>is_cloudflare_challenge\<close> is a total function, and it returns true exactly for the
  texts that hold one of the fixed markers in some letter casing: a part \<open>s\<close> of the text
  whose lower-case form is the marker. A text holding none of them is not flagged.
\<close>

theorem is_cloudflare_challenge_iff:
  "is_cloudflare_challenge html \<longleftrightarrow>
     (\<exists>keyword \<in> set CLOUDFLARE_KEYWORDS. \<exists>s. sublist s html \<and> lower s = keyword)"
  unfolding is_cloudflare_challenge_def Let_def list_ex_iff lower_def sublist_map_iff
  by blast


theorem is_cloudflare_challenge_witness:
  "is_cloudflare_challenge ''CF-Mitigated''"
proof -
  have "lower ''CF-Mitigated'' = ''cf-mitigated''"
    by code_simp
  moreover have "''cf-mitigated'' \<in> set CLOUDFLARE_KEYWORDS"
    by (simp add: CLOUDFLARE_KEYWORDS_def)
  ultimately show ?thesis
    using is_cloudflare_challenge_iff [of "''CF-Mitigated''"] by blast
qed

subsection \<open>The snapshot extractor\<close>

lemma redline_page:
  "request (sample_net (page_of redline_text) 1) = Some (page_of redline_text)"
  "extract_next_data sample_env (Html (page_of redline_text)) = Inr (page_data [redline])"
  "extract_skins (page_data [redline]) = Inr [redline]"
  by code_simp+

text \<open>
  C5. The extractor does not accept a structure that is decoded already: for every such
  structure \<open>_extract_next_data\<close> raises \<^verbatim>\<open>TypeError\<close>, since the pattern search takes
  strings only, while the page text that embeds the structure gives the structure. The
  tests \<^verbatim>\<open>test_extract_next_data_from_dict\<close> and \<^verbatim>\<open>test_parse_handles_json_payload\<close>
  expect the decoded structure to be accepted.
\<close>

theorem extract_next_data_decoded:
  "extract_next_data env (Decoded d) = Inl TypeError \<and>
   extract_next_data sample_env (Decoded (page_data [redline])) = Inl TypeError \<and>
   extract_next_data sample_env (Html (page_of redline_text)) = Inr (page_data [redline])"
  using redline_page(2) by simp

subsection \<open>Floats and timestamps\<close>

lemma floor_facts: "of_int \<lfloor>x\<rfloor> \<le> (x::rat)" "(x::rat) < of_int \<lfloor>x\<rfloor> + 1"
  using floor_correct [of x] by auto

lemma int_small:
  assumes "\<bar>(of_int k :: rat)\<bar> < 1"
  shows "k = 0"
proof -
  from assms have "(of_int \<bar>k\<bar> :: rat) < 1"
    by (simp only: of_int_abs)
  then have "\<bar>k\<bar> < 1"
    by (simp only: of_int_less_1_iff)
  then show ?thesis
    by linarith
qed

lemma rhe_cases:
  obtains (lo) "x - of_int \<lfloor>x\<rfloor> < 1 / 2" "round_half_even x = \<lfloor>x\<rfloor>"
  | (hi) "1 / 2 < x - of_int \<lfloor>x\<rfloor>" "round_half_even x = \<lfloor>x\<rfloor> + 1"
  | (tie_even) "x - of_int \<lfloor>x\<rfloor> = 1 / 2" "round_half_even x = \<lfloor>x\<rfloor>"
  | (tie_odd) "x - of_int \<lfloor>x\<rfloor> = 1 / 2" "round_half_even x = \<lfloor>x\<rfloor> + 1"
proof -
  consider "x - of_int \<lfloor>x\<rfloor> < 1 / 2" | "1 / 2 < x - of_int \<lfloor>x\<rfloor>"
    | "x - of_int \<lfloor>x\<rfloor> = 1 / 2 \<and> even \<lfloor>x\<rfloor>" | "x - of_int \<lfloor>x\<rfloor> = 1 / 2 \<and> odd \<lfloor>x\<rfloor>"
    by linarith
  then show thesis
  proof cases
    case 1
    then show thesis
      by (intro lo) (simp_all only: round_half_even_def Let_def if_True)
  next
    case 2
    then have "\<not> x - of_int \<lfloor>x\<rfloor> < 1 / 2"
      by linarith
    with 2 show thesis
      by (intro hi) (simp_all only: round_half_even_def Let_def if_True if_False)
  next
    case 3
    then have "\<not> x - of_int \<lfloor>x\<rfloor> < 1 / 2" "\<not> 1 / 2 < x - of_int \<lfloor>x\<rfloor>"
      by linarith+
    with 3 show thesis
      by (intro tie_even) (simp_all only: round_half_even_def Let_def if_True if_False)
  next
    case 4
    then have "\<not> x - of_int \<lfloor>x\<rfloor> < 1 / 2" "\<not> 1 / 2 < x - of_int \<lfloor>x\<rfloor>"
      by linarith+
    with 4 show thesis
      by (intro tie_odd) (simp_all only: round_half_even_def Let_def if_True if_False)
  qed
qed

lemma rhe_bound: "\<bar>of_int (round_half_even x) - x\<bar> \<le> 1 / 2"
proof -
  note f = floor_facts [of x]
  show ?thesis
  proof (cases x rule: rhe_cases)
    case lo
    have "\<bar>of_int \<lfloor>x\<rfloor> - x\<bar> \<le> 1 / 2"
      using f lo(1) by linarith
    then show ?thesis by (simp only: lo(2))
  next
    case hi
    have "\<bar>of_int \<lfloor>x\<rfloor> + 1 - x\<bar> \<le> 1 / 2"
      using f hi(1) by linarith
    then show ?thesis by (simp only: hi(2) of_int_add of_int_1)
  next
    case tie_even
    have "\<bar>of_int \<lfloor>x\<rfloor> - x\<bar> \<le> 1 / 2"
      using f tie_even(1) by linarith
    then show ?thesis by (simp only: tie_even(2))
  next
    case tie_odd
    have "\<bar>of_int \<lfloor>x\<rfloor> + 1 - x\<bar> \<le> 1 / 2"
      using f tie_odd(1) by linarith
    then show ?thesis by (simp only: tie_odd(2) of_int_add of_int_1)
  qed
qed

lemma rhe_unique:
  assumes "\<bar>x - of_int n\<bar> < 1 / 2"
  shows "round_half_even x = n"
proof -
  have "\<bar>of_int (round_half_even x) - of_int n :: rat\<bar> < 1"
    using rhe_bound [of x] assms by linarith
  then have "\<bar>of_int (round_half_even x - n) :: rat\<bar> < 1"
    by (simp only: of_int_diff)
  then have "round_half_even x - n = 0"
    by (rule int_small)
  then show ?thesis
    by linarith
qed

lemma bitlen_rat_bounds:
  assumes "0 < a"
  shows "\<exists>m. bitlen a = int (Suc m) \<and> (2::rat) ^ m \<le> of_int a \<and> (of_int a :: rat) < 2 ^ Suc m"
proof -
  have "1 \<le> bitlen a"
    using assms by (simp add: bitlen_alt_def)
  then have "bitlen a = int (Suc (nat (bitlen a - 1)))"
    by linarith
  then obtain m where m: "bitlen a = int (Suc m)"
    by blast
  then have "nat (bitlen a - 1) = m" "nat (bitlen a) = Suc m"
    by linarith+
  with bitlen_bounds [OF assms] have "2 ^ m \<le> a" "a < 2 ^ Suc m"
    by (simp_all only:)
  then have "(of_int (2 ^ m) :: rat) \<le> of_int a" "(of_int a :: rat) < of_int (2 ^ Suc m)"
    unfolding of_int_le_iff of_int_less_iff by simp_all
  then have "(2::rat) ^ m \<le> of_int a" "(of_int a :: rat) < 2 ^ Suc m"
    by simp_all
  with m show ?thesis by blast
qed

lemma power_int_2_diff: "power_int (2::rat) (int i - int j) = 2 ^ i / 2 ^ j"
  by (subst power_int_diff) simp_all

lemma floor_log2_bounds:
  assumes "0 < x"
  shows "power_int 2 (floor_log2 x) \<le> x" and "x < power_int 2 (floor_log2 x + 1)"
proof -
  obtain a b where q: "quotient_of x = (a, b)"
    by (cases "quotient_of x")
  then have b: "0 < b" and x: "x = of_int a / of_int b"
    using quotient_of_denom_pos quotient_of_div by blast+
  with assms have a: "0 < a"
    by (simp add: zero_less_divide_iff)
  from bitlen_rat_bounds [OF a] obtain m where
    m: "bitlen a = int (Suc m)" "(2::rat) ^ m \<le> of_int a" "(of_int a :: rat) < 2 ^ Suc m"
    by blast
  from bitlen_rat_bounds [OF b] obtain n where
    n: "bitlen b = int (Suc n)" "(2::rat) ^ n \<le> of_int b" "(of_int b :: rat) < 2 ^ Suc n"
    by blast
  have lower: "power_int 2 (bitlen a - bitlen b - 1) \<le> x"
  proof -
    have "bitlen a - bitlen b - 1 = int m - int (Suc n)"
      using m(1) n(1) by simp
    then have "power_int (2::rat) (bitlen a - bitlen b - 1) = 2 ^ m / 2 ^ Suc n"
      by (simp only: power_int_2_diff)
    also have "\<dots> \<le> of_int a / of_int b"
      using m(2) n(3) a b by (intro frac_le) auto
    finally show ?thesis using x by simp
  qed
  have upper: "x < power_int 2 (bitlen a - bitlen b + 1)"
  proof -
    have "x < 2 ^ Suc m / 2 ^ n"
      unfolding x using m(3) n(2) a b by (intro frac_less) auto
    also have "\<dots> = power_int (2::rat) (int (Suc m) - int n)"
      by (simp only: power_int_2_diff)
    also have "int (Suc m) - int n = bitlen a - bitlen b + 1"
      using m(1) n(1) by simp
    finally show ?thesis .
  qed
  show "power_int 2 (floor_log2 x) \<le> x"
    using lower q by (auto simp: floor_log2_def Let_def)
  show "x < power_int 2 (floor_log2 x + 1)"
    using upper q by (auto simp: floor_log2_def Let_def not_le)
qed

lemma ulp_pos: "0 < ulp x"
  by (simp add: ulp_def)

lemma ulp_le:
  assumes "x \<noteq> 0" and "\<bar>x\<bar> < power_int 2 k" and "0 \<le> k"
  shows "ulp x \<le> power_int 2 (k - 53)"
proof -
  have pos: "0 < \<bar>x\<bar>"
    using assms(1) by simp
  from floor_log2_bounds(1) [OF pos] assms(2)
  have "power_int (2::rat) (floor_log2 \<bar>x\<bar>) < power_int 2 k"
    by linarith
  then have "floor_log2 \<bar>x\<bar> < k"
    using assms(3) by (intro power_int_le_imp_less_exp [of "2::rat"]) simp_all
  then have "max (floor_log2 \<bar>x\<bar>) (- 1022) - 52 \<le> k - 53"
    using assms(3) by linarith
  then show ?thesis
    unfolding ulp_def by (intro power_int_increasing) simp_all
qed

lemma to_double_error: "\<bar>to_double x - x\<bar> \<le> ulp x / 2"
proof (cases "x = 0")
  case True
  then show ?thesis
    using ulp_pos [of x] by (simp add: to_double_def)
next
  case False
  let ?u = "ulp x"
  have u: "0 < ?u" by (rule ulp_pos)
  have "to_double x - x = (of_int (round_half_even (x / ?u)) - x / ?u) * ?u"
    using u False by (simp add: to_double_def algebra_simps)
  then have "\<bar>to_double x - x\<bar> = \<bar>of_int (round_half_even (x / ?u)) - x / ?u\<bar> * ?u"
    using u by (simp add: abs_mult)
  also have "\<dots> \<le> (1 / 2) * ?u"
    using rhe_bound [of "x / ?u"] u by (intro mult_right_mono) simp_all
  finally show ?thesis by simp
qed

lemma to_double_near:
  assumes "\<bar>x\<bar> < power_int 2 k" and "0 \<le> k"
  shows "\<bar>to_double x - x\<bar> \<le> power_int 2 (k - 54)"
proof (cases "x = 0")
  case True
  then show ?thesis by (simp add: to_double_def)
next
  case False
  have "power_int (2::rat) (k - 53) = power_int 2 (k - 54) * 2"
    using power_int_add_1 [of "2::rat" "k - 54"] by (simp add: algebra_simps)
  with ulp_le [OF False assms] to_double_error [of x] show ?thesis
    by linarith
qed

lemma trunc_facts: "\<bar>x - of_int (trunc x)\<bar> < 1" "\<bar>(of_int (trunc x) :: rat)\<bar> \<le> \<bar>x\<bar>"
proof -
  have f: "of_int \<lfloor>x\<rfloor> \<le> x" "x < of_int \<lfloor>x\<rfloor> + 1"
    by (rule floor_facts)+
  have c: "x \<le> of_int \<lceil>x\<rceil>" "of_int \<lceil>x\<rceil> < x + 1"
    by linarith+
  show "\<bar>x - of_int (trunc x)\<bar> < 1"
    using f c by (auto simp: trunc_def)
  have "0 \<le> x \<Longrightarrow> (0::rat) \<le> of_int \<lfloor>x\<rfloor>"
    by simp
  moreover have "x < 0 \<Longrightarrow> (of_int \<lceil>x\<rceil> :: rat) \<le> 0"
    by (simp add: ceiling_le_zero)
  ultimately show "\<bar>(of_int (trunc x) :: rat)\<bar> \<le> \<bar>x\<bar>"
    using f c by (auto simp: trunc_def)
qed

lemma fromtimestamp_UTC_near:
  assumes near: "\<bar>d * 1000000 - of_int M\<bar> \<le> 477 / 1000" and small: "\<bar>d\<bar> < 2 ^ 34"
  shows "fromtimestamp_UTC d = Inr (UTC_seconds (of_int M / 1000000))"
proof -
  define I where "I = trunc d"
  define p where "p = (d - of_int I) * 1000000"
  define N where "N = M - 1000000 * I"
  have fp: "\<bar>d - of_int I\<bar> < 1" and Ib: "\<bar>(of_int I :: rat)\<bar> \<le> \<bar>d\<bar>"
    unfolding I_def by (rule trunc_facts)+
  have pN: "p - of_int N = d * 1000000 - of_int M"
    by (simp add: p_def N_def algebra_simps)
  have "\<bar>p\<bar> < 1000000"
    using fp by (simp add: p_def abs_mult)
  then have "\<bar>p\<bar> < power_int 2 20"
    by simp
  from to_double_near [OF this] have "\<bar>to_double p - p\<bar> \<le> power_int 2 (- 34)"
    by simp
  then have "\<bar>to_double p - p\<bar> \<le> 1 / 1000"
    by (simp add: power_int_minus_divide)
  with near pN have "\<bar>to_double p - of_int N\<bar> < 1 / 2"
    by linarith
  then have r: "round_half_even (to_double p) = N"
    by (rule rhe_unique)
  have Nb: "\<bar>of_int N :: rat\<bar> < 1000001"
    using \<open>\<bar>p\<bar> < 1000000\<close> near pN by linarith
  then have Nb': "\<bar>N\<bar> < 1000001"
    by (metis of_int_abs of_int_less_iff of_int_numeral)
  have "\<bar>(of_int I :: rat)\<bar> < of_int (2 ^ 34)"
    using Ib small by simp
  then have Ib': "\<bar>I\<bar> < 2 ^ 34"
    by (metis of_int_abs of_int_less_iff)
  have total: "(of_int I :: rat) * 1000000 + of_int N = of_int M"
    by (simp add: N_def)
  show ?thesis
    unfolding fromtimestamp_UTC_def Let_def I_def [symmetric] p_def [symmetric] r
    using Nb' Ib' total by (auto simp: field_simps)
qed

lemma csmoney_unix_to_datetime_exact:
  assumes "T \<noteq> 0" and "\<bar>T\<bar> < 8589934592000"
  shows "csmoney_unix_to_datetime (JInt T) = Inr (Some (UTC_seconds (of_int T / 1000)))"
proof -
  let ?x = "of_int T / 1000 :: rat"
  let ?d = "to_double ?x"
  have "(of_int \<bar>T\<bar> :: rat) < of_int 8589934592000"
    using assms(2) by (simp only: of_int_less_iff)
  then have "\<bar>of_int T :: rat\<bar> < 8589934592000"
    by simp
  then have xb: "\<bar>?x\<bar> < 8589934592"
    by simp
  then have "\<bar>?x\<bar> < power_int 2 33"
    by simp
  from to_double_near [OF this] have "\<bar>?d - ?x\<bar> \<le> power_int 2 (- 21)"
    by simp
  then have err: "\<bar>?d - ?x\<bar> \<le> 1 / 2097152"
    by (simp add: power_int_minus_divide)
  have eq: "?d * 1000000 - of_int (1000 * T) = (?d - ?x) * 1000000"
    by (simp add: algebra_simps)
  have scale: "\<bar>a * 1000000\<bar> = \<bar>a\<bar> * 1000000" for a :: rat
    by (simp add: abs_mult)
  have "\<bar>(?d - ?x) * 1000000\<bar> = \<bar>?d - ?x\<bar> * 1000000"
    by (rule scale)
  also have "\<dots> \<le> (1 / 2097152) * 1000000"
    using err by (intro mult_right_mono) simp_all
  also have "\<dots> \<le> 477 / 1000"
    by simp
  finally have "\<bar>(?d - ?x) * 1000000\<bar> \<le> 477 / 1000" .
  then have near: "\<bar>?d * 1000000 - of_int (1000 * T)\<bar> \<le> 477 / 1000"
    by (simp only: eq)
  have "\<bar>?d\<bar> < 17179869184"
    using err xb by linarith
  then have small: "\<bar>?d\<bar> < 2 ^ 34"
    by simp
  have "(2::rat) ^ 34 \<le> 2 ^ 1024"
    by (rule power_increasing) simp_all
  with small have fits: "\<not> 2 ^ 1024 \<le> \<bar>?d\<bar>"
    by linarith
  have "fromtimestamp_UTC ?d = Inr (UTC_seconds (of_int (1000 * T) / 1000000))"
    using near small by (rule fromtimestamp_UTC_near)
  then show ?thesis
    using assms(1) fits by (simp add: true_divide_1000_def Let_def del: power_numeral)
qed

text \<open>
  Beyond \<open>2 ^ 33\<close> seconds the division and the rounding lose microseconds, as in
  CPython: 8600000000001 ms become 8600000000.000999 s.
\<close>

lemma csmoney_unix_to_datetime_inexact:
  "csmoney_unix_to_datetime (JInt 8600000000001) =
     Inr (Some (UTC_seconds (8600000000000999 / 1000000)))"
  by code_simp

subsection \<open>The item transformer\<close>

lemma append_stack_items_Inr:
  "append_stack_items env j nm acc sibs = Inr its \<Longrightarrow>
     \<exists>rest. its = acc @ rest \<and> length rest = length sibs \<and>
       (\<forall>i<length sibs. stack_item_of env j nm (sibs ! i) = Inr (rest ! i))"
proof (induction sibs arbitrary: acc)
  case Nil
  then show ?case by simp
next
  case (Cons s sibs)
  from Cons.prems obtain it where it: "stack_item_of env j nm s = Inr it"
    and rec: "append_stack_items env j nm (acc @ [it]) sibs = Inr its"
    by (auto simp: and_then_eq_Inr)
  from Cons.IH [OF rec] obtain rest where rest: "its = (acc @ [it]) @ rest"
    "length rest = length sibs" "\<forall>i<length sibs. stack_item_of env j nm (sibs ! i) = Inr (rest ! i)"
    by blast
  have "\<forall>i<length (s # sibs). stack_item_of env j nm ((s # sibs) ! i) = Inr ((it # rest) ! i)"
    using it rest(3) by (auto simp: nth_Cons split: nat.splits)
  with rest(1,2) show ?case
    by (intro exI [of _ "it # rest"]) simp
qed


lemma stack_item_of_fields:
  assumes "stack_item_of env json_item nm s = Inr it"
  shows "name it = nm" "overpay_float it = JNull"
    "py_get s ''float'' = Inr (float' it)"
    "and_then (py_getitem s ''tradeLock'') csmoney_unix_to_datetime = Inr (unlock_timestamp it)"
    "py_getitem json_item ''price'' = Inr (price it)"
    "py_getitem json_item ''nameId'' = Inr (name_id it)"
    "and_then (py_getitem json_item ''type'') (category_of env) = Inr (type' it)"
  using assms by (auto simp: stack_item_of_def and_then_eq_Inr)

lemma parent_item_of_fields:
  assumes "parent_item_of env json_item nm ovf = Inr it"
  shows "name it = nm" "overpay_float it = ovf"
    "py_get json_item ''float'' = Inr (float' it)"
    "and_then (py_get json_item ''tradeLock'') csmoney_unix_to_datetime = Inr (unlock_timestamp it)"
    "py_getitem json_item ''price'' = Inr (price it)"
    "py_getitem json_item ''nameId'' = Inr (name_id it)"
    "and_then (py_getitem json_item ''type'') (category_of env) = Inr (type' it)"
  using assms by (auto simp: parent_item_of_def and_then_eq_Inr)

lemma create_items_named:
  assumes "map_of kvs ''fullName'' = Some fn"
  shows "create_items env (JObj kvs) =
     and_then (patch_market_name env fn) (\<lambda>nm.
     and_then (and_then (py_get (JObj kvs) ''overpay'')
                 (\<lambda>overpay. if truthy overpay then py_get overpay ''float'' else Inr JNull))
       (\<lambda>overpay_fl.
     and_then (parent_item_of env (JObj kvs) nm overpay_fl) (\<lambda>parent.
       if map_of kvs ''stackSize'' \<noteq> None \<and> map_of kvs ''stackId'' \<noteq> None \<and>
          map_of kvs ''stackItems'' \<noteq> None
       then and_then (py_getitem (JObj kvs) ''stackItems'') (\<lambda>stack_items.
            and_then (py_iter stack_items) (\<lambda>siblings.
              append_stack_items env (JObj kvs) nm [parent] siblings))
       else Inr [parent])))"
  using assms
  by (cases "patch_market_name env fn")
     (auto simp: create_items_def is_stack_def split: option.splits sum.splits)

lemma create_items_Inr_named:
  assumes "create_items env (JObj kvs) = Inr its" and "map_of kvs ''fullName'' \<noteq> None"
  shows "\<exists>nm ovf parent.
           and_then (py_get (JObj kvs) ''overpay'')
             (\<lambda>overpay. if truthy overpay then py_get overpay ''float'' else Inr JNull) = Inr ovf \<and>
           parent_item_of env (JObj kvs) nm ovf = Inr parent \<and>
           (if map_of kvs ''stackSize'' \<noteq> None \<and> map_of kvs ''stackId'' \<noteq> None \<and>
               map_of kvs ''stackItems'' \<noteq> None
            then \<exists>si sibs. map_of kvs ''stackItems'' = Some si \<and> py_iter si = Inr sibs \<and>
                   append_stack_items env (JObj kvs) nm [parent] sibs = Inr its
            else its = [parent])"
proof -
  from assms(2) obtain fn where fn: "map_of kvs ''fullName'' = Some fn"
    by blast
  from assms(1) [unfolded create_items_named [OF fn] and_then_eq_Inr]
  obtain nm ovf parent where
    "and_then (py_get (JObj kvs) ''overpay'')
             (\<lambda>overpay. if truthy overpay then py_get overpay ''float'' else Inr JNull) = Inr ovf"
    "parent_item_of env (JObj kvs) nm ovf = Inr parent"
    "(if map_of kvs ''stackSize'' \<noteq> None \<and> map_of kvs ''stackId'' \<noteq> None \<and>
          map_of kvs ''stackItems'' \<noteq> None
       then and_then (py_getitem (JObj kvs) ''stackItems'') (\<lambda>stack_items.
            and_then (py_iter stack_items) (\<lambda>siblings.
              append_stack_items env (JObj kvs) nm [parent] siblings))
       else Inr [parent]) = Inr its"
    by (auto simp: and_then_eq_Inr)
  then show ?thesis
    by (intro exI [of _ nm] exI [of _ ovf] exI [of _ parent])
       (auto simp: and_then_eq_Inr split: if_splits option.splits)
qed

lemma redline_eval: "create_items sample_env redline = Inr [redline_item]"
  by code_simp

lemma bayonet_eval: "create_items sample_env (JObj bayonet_fields) = Inr bayonet_items"
  by code_simp

text \<open>
  C8. A raw item record without the key \<^verbatim>\<open>fullName\<close> gives the empty list, and no
  exception.
\<close>

theorem create_items_without_full_name:
  "map_of kvs ''fullName'' = None \<Longrightarrow> create_items env (JObj kvs) = Inr []"
  by (simp add: create_items_def)

theorem create_items_without_full_name_witness:
  "map_of [(''price'', JInt 5), (''type'', JInt 3)] ''fullName'' = None \<and>
   create_items sample_env (JObj [(''price'', JInt 5), (''type'', JInt 3)]) = Inr []"
  using create_items_without_full_name [of "[(''price'', JInt 5), (''type'', JInt 3)]" sample_env]
  by simp

text \<open>
  C2, as amended. Take a grouped raw record (the three stack keys present, \<^verbatim>\<open>stackItems\<close>
  a list of \<open>N\<close> siblings) that has the key \<^verbatim>\<open>fullName\<close>. Whenever the transformation
  returns, it returns exactly \<open>N + 1\<close> items. The first is the parent's: it carries the
  parent's overpay metric, wear value and lock. Every sibling's item has no overpay
  metric, takes its wear value and its lock from the sibling's own sub-record, and shares
  name, price, template identifier and category with the first.
\<close>

theorem create_items_stack:
  assumes "create_items env (JObj kvs) = Inr its"
    and "map_of kvs ''fullName'' \<noteq> None"
    and "map_of kvs ''stackSize'' \<noteq> None" and "map_of kvs ''stackId'' \<noteq> None"
    and "map_of kvs ''stackItems'' = Some (JList siblings)"
  shows "length its = length siblings + 1 \<and>
         and_then (py_get (JObj kvs) ''overpay'')
           (\<lambda>overpay. if truthy overpay then py_get overpay ''float'' else Inr JNull)
           = Inr (overpay_float (its ! 0)) \<and>
         py_get (JObj kvs) ''float'' = Inr (float' (its ! 0)) \<and>
         and_then (py_get (JObj kvs) ''tradeLock'') csmoney_unix_to_datetime
           = Inr (unlock_timestamp (its ! 0)) \<and>
         (\<forall>i<length siblings.
            overpay_float (its ! Suc i) = JNull \<and>
            py_get (siblings ! i) ''float'' = Inr (float' (its ! Suc i)) \<and>
            and_then (py_getitem (siblings ! i) ''tradeLock'') csmoney_unix_to_datetime
              = Inr (unlock_timestamp (its ! Suc i)) \<and>
            name (its ! Suc i) = name (its ! 0) \<and>
            price (its ! Suc i) = price (its ! 0) \<and>
            name_id (its ! Suc i) = name_id (its ! 0) \<and>
            type' (its ! Suc i) = type' (its ! 0))"
proof -
  from create_items_Inr_named [OF assms(1,2)] assms(3-5)
  obtain nm ovf parent where
    ovf: "and_then (py_get (JObj kvs) ''overpay'')
             (\<lambda>overpay. if truthy overpay then py_get overpay ''float'' else Inr JNull) = Inr ovf"
    and parent: "parent_item_of env (JObj kvs) nm ovf = Inr parent"
    and loop: "append_stack_items env (JObj kvs) nm [parent] siblings = Inr its"
    by auto
  from append_stack_items_Inr [OF loop] obtain rest where
    its: "its = parent # rest" and len: "length rest = length siblings"
    and sib: "\<forall>i<length siblings. stack_item_of env (JObj kvs) nm (siblings ! i) = Inr (rest ! i)"
    by auto
  note p = parent_item_of_fields [OF parent]
  have "\<forall>i<length siblings.
            overpay_float (rest ! i) = JNull \<and>
            py_get (siblings ! i) ''float'' = Inr (float' (rest ! i)) \<and>
            and_then (py_getitem (siblings ! i) ''tradeLock'') csmoney_unix_to_datetime
              = Inr (unlock_timestamp (rest ! i)) \<and>
            name (rest ! i) = name parent \<and>
            price (rest ! i) = price parent \<and>
            name_id (rest ! i) = name_id parent \<and>
            type' (rest ! i) = type' parent"
  proof (intro allI impI)
    fix i assume "i < length siblings"
    with sib have s: "stack_item_of env (JObj kvs) nm (siblings ! i) = Inr (rest ! i)"
      by blast
    note f = stack_item_of_fields [OF s]
    from f(1) p(1) have "name (rest ! i) = name parent" by simp
    moreover from f(5) p(5) have "price (rest ! i) = price parent" by simp
    moreover from f(6) p(6) have "name_id (rest ! i) = name_id parent" by simp
    moreover from f(7) p(7) have "type' (rest ! i) = type' parent" by simp
    ultimately show "overpay_float (rest ! i) = JNull \<and>
            py_get (siblings ! i) ''float'' = Inr (float' (rest ! i)) \<and>
            and_then (py_getitem (siblings ! i) ''tradeLock'') csmoney_unix_to_datetime
              = Inr (unlock_timestamp (rest ! i)) \<and>
            name (rest ! i) = name parent \<and>
            price (rest ! i) = price parent \<and>
            name_id (rest ! i) = name_id parent \<and>
            type' (rest ! i) = type' parent"
      using f(2,3,4) by simp
  qed
  with its len ovf p(2,3,4) show ?thesis
    by simp
qed

theorem create_items_stack_witness:
  "create_items sample_env (JObj bayonet_fields) = Inr bayonet_items \<and>
   map_of bayonet_fields ''fullName'' \<noteq> None \<and>
   map_of bayonet_fields ''stackSize'' \<noteq> None \<and> map_of bayonet_fields ''stackId'' \<noteq> None \<and>
   map_of bayonet_fields ''stackItems'' = Some (JList bayonet_siblings) \<and>
   length bayonet_items = length bayonet_siblings + 1 \<and>
   overpay_float (bayonet_items ! Suc 0) = JNull \<and>
   py_get (bayonet_siblings ! 0) ''float'' = Inr (float' (bayonet_items ! Suc 0)) \<and>
   and_then (py_getitem (bayonet_siblings ! 0) ''tradeLock'') csmoney_unix_to_datetime
     = Inr (unlock_timestamp (bayonet_items ! Suc 0)) \<and>
   name (bayonet_items ! Suc 0) = name (bayonet_items ! 0) \<and>
   price (bayonet_items ! Suc 0) = price (bayonet_items ! 0)"
proof -
  have h: "map_of bayonet_fields ''fullName'' \<noteq> None"
    "map_of bayonet_fields ''stackSize'' \<noteq> None" "map_of bayonet_fields ''stackId'' \<noteq> None"
    "map_of bayonet_fields ''stackItems'' = Some (JList bayonet_siblings)"
    by (simp_all add: bayonet_fields_def)
  have n: "0 < length bayonet_siblings"
    by (simp add: bayonet_siblings_def)
  from create_items_stack [OF bayonet_eval h] n bayonet_eval h show ?thesis
    by blast
qed

text \<open>
  The claim as stated fails on a grouped record without \<^verbatim>\<open>fullName\<close>: it has one
  sibling, and the transformation gives no item at all.
\<close>

theorem create_items_stack_counterexample:
  "create_items sample_env
     (JObj [(''price'', JFloat (to_double (57964 / 5))), (''assetId'', JInt 24899230485),
            (''nameId'', JInt 15840), (''type'', JInt 2),
            (''stackSize'', JInt 2), (''stackId'', JStr ''s2''),
            (''stackItems'', JList [JObj [(''id'', JInt 24902572721), (''tradeLock'', JNull)]])])
   = Inr []"
  by (simp add: create_items_def)

text \<open>
  C7, as amended. For every millisecond timestamp \<open>T\<close> other than 0 that is less than
  \<open>2 ^ 33\<close> seconds away from the epoch (\<open>\<bar>T\<bar> < 8589934592000\<close>, the years 1697 to
  2242), the conversion gives the UTC time \<open>T / 1000\<close> seconds after the epoch, exactly.
  When a record has no key \<^verbatim>\<open>tradeLock\<close>, the item made from the record has no unlock
  timestamp.
\<close>

theorem csmoney_unix_to_datetime_nonzero:
  "(T \<noteq> 0 \<and> \<bar>T\<bar> < 8589934592000 \<longrightarrow>
      csmoney_unix_to_datetime (JInt T) = Inr (Some (UTC_seconds (of_int T / 1000)))) \<and>
   (map_of kvs ''tradeLock'' = None \<and> create_items env (JObj kvs) = Inr its \<and> its \<noteq> [] \<longrightarrow>
      unlock_timestamp (hd its) = None)"
proof
  show "T \<noteq> 0 \<and> \<bar>T\<bar> < 8589934592000 \<longrightarrow>
      csmoney_unix_to_datetime (JInt T) = Inr (Some (UTC_seconds (of_int T / 1000)))"
    using csmoney_unix_to_datetime_exact by blast
next
  show "map_of kvs ''tradeLock'' = None \<and> create_items env (JObj kvs) = Inr its \<and> its \<noteq> [] \<longrightarrow>
      unlock_timestamp (hd its) = None"
  proof
    assume h: "map_of kvs ''tradeLock'' = None \<and> create_items env (JObj kvs) = Inr its \<and> its \<noteq> []"
    then have named: "map_of kvs ''fullName'' \<noteq> None"
      by (cases "map_of kvs ''fullName''") (auto simp: create_items_def)
    from h create_items_Inr_named [OF _ named, of env its]
    obtain nm ovf parent where parent: "parent_item_of env (JObj kvs) nm ovf = Inr parent"
      and shape: "(\<exists>sibs. append_stack_items env (JObj kvs) nm [parent] sibs = Inr its) \<or> its = [parent]"
      by (auto split: if_splits)
    from shape have "hd its = parent"
      by (auto dest: append_stack_items_Inr)
    moreover have "unlock_timestamp parent = None"
      using parent_item_of_fields(4) [OF parent] h by simp
    ultimately show "unlock_timestamp (hd its) = None"
      by simp
  qed
qed

theorem csmoney_unix_to_datetime_witness:
  "(1645430400000 :: int) \<noteq> 0 \<and> \<bar>1645430400000 :: int\<bar> < 8589934592000 \<and>
   csmoney_unix_to_datetime (JInt 1645430400000) = Inr (Some (UTC_seconds 1645430400)) \<and>
   create_items sample_env redline = Inr [redline_item] \<and>
   unlock_timestamp (hd [redline_item]) = None"
proof -
  let ?kvs = "[(''fullName'', JStr ''AK-47 | Redline (Field-Tested)''), (''price'', JFloat (to_double (617 / 50))),
           (''assetId'', JInt 123), (''nameId'', JInt 456), (''type'', JInt 3)]"
  have r: "create_items sample_env (JObj ?kvs) = Inr [redline_item]"
    using redline_eval by (simp add: redline_def)
  have k: "map_of ?kvs ''tradeLock'' = None"
    by simp
  from csmoney_unix_to_datetime_nonzero [of 1645430400000 ?kvs sample_env "[redline_item]"] r k
  show ?thesis
    using redline_eval by simp
qed

text \<open>
  The claim as stated fails at \<open>T = 0\<close>: \<^verbatim>\<open>if unix:\<close> is false for 0, so the conversion
  gives no timestamp where the claim says the epoch.
\<close>

theorem csmoney_unix_to_datetime_counterexample:
  "csmoney_unix_to_datetime (JInt 0) \<noteq> Inr (Some (UTC_seconds (of_int 0 / 1000)))"
  by simp

subsection \<open>The retry loop\<close>


lemma parse_loop_failed:
  assumes "failed_attempts st \<le> max_attempts" and "attempt_fails env (net (attempts st))"
  shows "parse_loop env net max_attempts st =
           parse_loop env net max_attempts
             (st\<lparr>attempts := Suc (attempts st), failed_attempts := failed_attempts st + 1\<rparr>)"
  using assms
  by (subst parse_loop.simps) (auto simp: attempt_fails_def Let_def split: option.splits)


lemma parse_loop_process:
  assumes "failed_attempts st \<le> max_attempts"
    and "request (net (attempts st)) = Some html" and "html \<noteq> []"
    and "and_then (extract_next_data env (Html html)) extract_skins = Inr skins_data"
  shows "parse_loop env net max_attempts st =
           (case process_items env skins_data (sink st) of
              (out, queue) \<Rightarrow> (out, st\<lparr>attempts := Suc (attempts st), sink := queue\<rparr>))"
  using assms by (subst parse_loop.simps) (simp add: Let_def split: prod.splits)

lemma parse_loop_skip:
  assumes "\<forall>i<n. attempt_fails env (net (a + i))" and "f + int n \<le> max_attempts + 1"
  shows "parse_loop env net max_attempts \<lparr>failed_attempts = f, attempts = a, sink = q\<rparr> =
           parse_loop env net max_attempts
             \<lparr>failed_attempts = f + int n, attempts = a + n, sink = q\<rparr>"
  using assms
proof (induction n arbitrary: f a)
  case 0
  then show ?case by simp
next
  case (Suc n)
  have fails: "attempt_fails env (net a)"
    using Suc.prems(1) by force
  have rest: "\<forall>i<n. attempt_fails env (net (Suc a + i))"
    using Suc.prems(1) by force
  have "parse_loop env net max_attempts \<lparr>failed_attempts = f, attempts = a, sink = q\<rparr> =
          parse_loop env net max_attempts \<lparr>failed_attempts = f + 1, attempts = Suc a, sink = q\<rparr>"
    using parse_loop_failed [of "\<lparr>failed_attempts = f, attempts = a, sink = q\<rparr>" max_attempts env net]
      fails Suc.prems(2) by simp
  also have "\<dots> = parse_loop env net max_attempts
          \<lparr>failed_attempts = f + 1 + int n, attempts = Suc a + n, sink = q\<rparr>"
    using Suc.IH [OF rest, of "f + 1"] Suc.prems(2) by simp
  finally show ?case
    by (simp add: algebra_simps)
qed

lemma parse_after_failures:
  assumes "\<forall>i<n. attempt_fails env (net i)" and "int n \<le> max_attempts"
    and "request (net n) = Some html" and "html \<noteq> []"
    and "and_then (extract_next_data env (Html html)) extract_skins = Inr skins_data"
  shows "parse env net max_attempts =
           (case collect_items env \<lparr>items = []\<rparr> skins_data of
              Inl e \<Rightarrow> (Raised e, \<lparr>failed_attempts = int n, attempts = Suc n, sink = []\<rparr>)
            | Inr pack \<Rightarrow>
                (if put_ok env pack then Returned else Raised SinkError,
                 \<lparr>failed_attempts = int n, attempts = Suc n, sink = [pack]\<rparr>))"
proof -
  let ?st = "\<lparr>failed_attempts = int n, attempts = n, sink = []\<rparr> :: 'a parse_state"
  have "parse_loop env net max_attempts \<lparr>failed_attempts = 0, attempts = 0, sink = []\<rparr> =
          parse_loop env net max_attempts ?st"
    using parse_loop_skip [of n env net 0 0 max_attempts "[]"] assms(1,2) by simp
  also have "\<dots> = (case process_items env skins_data [] of
              (out, queue) \<Rightarrow> (out, \<lparr>failed_attempts = int n, attempts = Suc n, sink = queue\<rparr>))"
    using parse_loop_process [of ?st max_attempts net html env skins_data] assms(2-5) by simp
  finally show ?thesis
    using assms(2) by (simp add: parse_def process_items_def split: sum.splits)
qed



lemma collect_items_error:
  assumes "\<forall>x\<in>set pre. \<exists>its. create_items env x = Inr its" and "create_items env r = Inl e"
  shows "collect_items env pack (pre @ r # post) = Inl e"
  using assms by (induction pre arbitrary: pack) auto

lemma parse_transform_error:
  assumes "\<forall>i<n. attempt_fails env (net i)" and "int n \<le> max_attempts"
    and "request (net n) = Some html" and "html \<noteq> []"
    and "and_then (extract_next_data env (Html html)) extract_skins = Inr (pre @ r # post)"
    and "\<forall>x\<in>set pre. \<exists>its. create_items env x = Inr its" and "create_items env r = Inl e"
  shows "parse env net max_attempts =
           (Raised e, \<lparr>failed_attempts = int n, attempts = Suc n, sink = []\<rparr>)"
  using parse_after_failures [OF assms(1-5)] collect_items_error [OF assms(6,7)]
  by simp

lemma challenge_page: "is_cloudflare_challenge ''<title>Just a moment...</title>''"
  by code_simp

text \<open>
  C3. With \<^verbatim>\<open>max_attempts = 0\<close> and no fetch giving content, \<open>parse\<close> makes exactly one
  attempt, raises \<^verbatim>\<open>MaxAttemptsReachedError\<close>, and never calls the sink.
\<close>

theorem parse_zero_bound_no_content:
  assumes "\<forall>n. request (net n) = None \<or> request (net n) = Some []"
  shows "parse env net 0 =
           (Raised MaxAttemptsReachedError, \<lparr>failed_attempts = 1, attempts = 1, sink = []\<rparr>)"
proof -
  let ?s0 = "\<lparr>failed_attempts = 0, attempts = 0, sink = []\<rparr> :: 'a parse_state"
  let ?s1 = "\<lparr>failed_attempts = 1, attempts = 1, sink = []\<rparr> :: 'a parse_state"
  have first: "request (net 0) = None \<or> request (net 0) = Some []"
    using assms by blast
  have stop: "parse_loop env net 0 ?s1 = (Returned, ?s1)"
    by (subst parse_loop.simps) simp
  have "parse_loop env net 0 ?s0 = parse_loop env net 0 ?s1"
    using first by (subst parse_loop.simps) auto
  with stop show ?thesis
    by (simp add: parse_def)
qed

theorem parse_zero_bound_no_content_witness:
  "(\<forall>n. request ((\<lambda>n. if n = 0 then Failed else Body ''<title>Just a moment...</title>'') n) = None
        \<or> request ((\<lambda>n. if n = 0 then Failed else Body ''<title>Just a moment...</title>'') n) = Some []) \<and>
   parse sample_env (\<lambda>n. if n = 0 then Failed else Body ''<title>Just a moment...</title>'') 0 =
     (Raised MaxAttemptsReachedError, \<lparr>failed_attempts = 1, attempts = 1, sink = []\<rparr>)"
proof -
  have h: "\<forall>n. request ((\<lambda>n. if n = 0 then Failed else Body ''<title>Just a moment...</title>'') n) = None
        \<or> request ((\<lambda>n. if n = 0 then Failed else Body ''<title>Just a moment...</title>'') n) = Some []"
    using challenge_page by (simp add: request_def)
  from h parse_zero_bound_no_content [OF h, of sample_env] show ?thesis
    by blast
qed










lemma unknown_type_page:
  "request (sample_net (page_of unknown_type_text) 1) = Some (page_of unknown_type_text)"
  "and_then (extract_next_data sample_env (Html (page_of unknown_type_text))) extract_skins
     = Inr [unknown_type]"
  by code_simp+

text \<open>
  C4, as amended. Take a raw item record with the key \<^verbatim>\<open>fullName\<close> whose name the
  normaliser accepts, whose overpay lookup does not raise, and which has the keys
  \<^verbatim>\<open>price\<close>, \<^verbatim>\<open>assetId\<close>, \<^verbatim>\<open>nameId\<close> and \<^verbatim>\<open>type\<close>. If the category code is no member of
  the enumeration, the transformation raises \<^verbatim>\<open>ValueError\<close>. The loop does not recover
  it: when, after \<open>n\<close> failed attempts within the bound, a page holds such a record
  after records that transform, \<open>parse\<close> raises this \<^verbatim>\<open>ValueError\<close> (and not
  \<^verbatim>\<open>MaxAttemptsReachedError\<close>), makes no further attempt and never calls the sink.
\<close>

theorem create_items_unknown_category:
  assumes "map_of kvs ''fullName'' = Some fn" and "patch_market_name env fn = Inr nm"
    and "and_then (py_get (JObj kvs) ''overpay'')
           (\<lambda>overpay. if truthy overpay then py_get overpay ''float'' else Inr JNull) = Inr ovf"
    and "map_of kvs ''price'' \<noteq> None" and "map_of kvs ''assetId'' \<noteq> None"
    and "map_of kvs ''nameId'' \<noteq> None"
    and "map_of kvs ''type'' = Some code" and "CsmoneyItemCategory env code = None"
  shows "create_items env (JObj kvs) = Inl ValueError \<and>
         ((\<forall>i<n. attempt_fails env (net i)) \<and> int n \<le> max_attempts \<and>
          request (net n) = Some html \<and> html \<noteq> [] \<and>
          and_then (extract_next_data env (Html html)) extract_skins = Inr (pre @ JObj kvs # post) \<and>
          (\<forall>x\<in>set pre. \<exists>its. create_items env x = Inr its) \<longrightarrow>
          parse env net max_attempts =
            (Raised ValueError, \<lparr>failed_attempts = int n, attempts = Suc n, sink = []\<rparr>))"
proof -
  have "parent_item_of env (JObj kvs) nm ovf = Inl ValueError"
    using assms(4-8) by (auto simp: parent_item_of_def category_of_def)
  then have raise: "create_items env (JObj kvs) = Inl ValueError"
    using assms(2,3) by (simp add: create_items_named [OF assms(1)])
  then show ?thesis
    using parse_transform_error [of n env net max_attempts html pre "JObj kvs" post ValueError]
    by blast
qed

theorem create_items_unknown_category_witness:
  "create_items sample_env unknown_type = Inl ValueError \<and>
   attempt_fails sample_env (sample_net (page_of unknown_type_text) 0) \<and>
   request (sample_net (page_of unknown_type_text) 1) = Some (page_of unknown_type_text) \<and>
   and_then (extract_next_data sample_env (Html (page_of unknown_type_text))) extract_skins
     = Inr [unknown_type] \<and>
   parse sample_env (sample_net (page_of unknown_type_text)) 5 =
     (Raised ValueError, \<lparr>failed_attempts = 1, attempts = 2, sink = []\<rparr>)"
proof -
  let ?kvs = "[(''fullName'', JStr ''AK-47 | Redline (Field-Tested)''), (''price'', JFloat (to_double (617 / 50))),
           (''assetId'', JInt 123), (''nameId'', JInt 456), (''type'', JInt 999)]"
  have u: "unknown_type = JObj ?kvs"
    by (simp add: unknown_type_def)
  have a: "attempt_fails sample_env (sample_net (page_of unknown_type_text) 0)"
    by (simp add: attempt_fails_def sample_net_def request_def)
  have e: "page_of unknown_type_text \<noteq> []"
    by (simp add: page_of_def)
  have c: "and_then (extract_next_data sample_env (Html (page_of unknown_type_text))) extract_skins
     = Inr ([] @ JObj ?kvs # [])"
    using unknown_type_page(2) u by simp
  have "create_items sample_env (JObj ?kvs) = Inl ValueError \<and>
     parse sample_env (sample_net (page_of unknown_type_text)) 5 =
     (Raised ValueError, \<lparr>failed_attempts = int 1, attempts = Suc 1, sink = []\<rparr>)"
    using create_items_unknown_category [of ?kvs "JStr ''AK-47 | Redline (Field-Tested)''"
        sample_env "''AK-47 | Redline (Field-Tested)''" JNull "JInt 999" 1
        "sample_net (page_of unknown_type_text)" 5 "page_of unknown_type_text" "[]" "[]"]
      a e c unknown_type_page(1)
    by (simp add: sample_env_def sample_patch_def sample_category_def)
  with a unknown_type_page u show ?thesis
    by simp
qed

text \<open>
  The claim as stated fails on a record without \<^verbatim>\<open>fullName\<close>: its category code 999 is
  no member of the enumeration, and the transformation returns the empty list.
\<close>

theorem create_items_unknown_category_counterexample:
  "CsmoneyItemCategory sample_env (JInt 999) = None \<and>
   create_items sample_env
     (JObj [(''price'', JFloat (to_double (617 / 50))), (''assetId'', JInt 123), (''nameId'', JInt 456),
            (''type'', JInt 999)]) = Inr []"
  by (simp add: create_items_def sample_env_def sample_category_def)




end
